theory Spec2Isabelle
  imports Complex_Main
begin

section \<open>Python errors, fallible reads and loops\<close>

text \<open>
  The embedding follows \<^verbatim>\<open>src/sepia/SepiaSensitivity.py\<close>. Floating-point numbers are
  modelled by \<^typ>\<open>real\<close>, one-dimensional arrays by lists, the lookup table \<^verbatim>\<open>C2\<close> by
  a list of rows, and the square matrices \<^verbatim>\<open>Vf\<close>, \<^verbatim>\<open>Q\<close> by functions from two indices.
  Every exception the modelled lines can raise is a value of \<open>py_error\<close>; a computation
  that can raise returns \<open>py_error + 'a\<close> with \<open>Inl\<close> for the exception.
\<close>

datatype py_error = IndexError | KeyError | AttributeError | ValueError

definition ebind :: "py_error + 'a \<Rightarrow> ('a \<Rightarrow> py_error + 'b) \<Rightarrow> py_error + 'b" where
  "ebind r f = (case r of Inl e \<Rightarrow> Inl e | Inr v \<Rightarrow> f v)"

text \<open>\<^verbatim>\<open>for x in xs: body\<close> over a state, stopping at the first exception.\<close>

fun for_loop :: "'a list \<Rightarrow> ('a \<Rightarrow> 's \<Rightarrow> py_error + 's) \<Rightarrow> 's \<Rightarrow> py_error + 's" where
  "for_loop [] body s = Inr s"
| "for_loop (x # xs) body s = ebind (body x s) (for_loop xs body)"

text \<open>\<^verbatim>\<open>v[i]\<close> on a one-dimensional array, with a non-negative index.\<close>

definition np_get :: "real list \<Rightarrow> nat \<Rightarrow> py_error + real" where
  "np_get v i = (if i < length v then Inr (v ! i) else Inl IndexError)"

text \<open>\<^verbatim>\<open>v[Js]\<close>: fancy indexing of a one-dimensional array by a list of indices.\<close>

definition np_take :: "real list \<Rightarrow> nat list \<Rightarrow> py_error + real list" where
  "np_take v Js = (if \<forall>d \<in> set Js. d < length v then Inr (map ((!) v) Js) else Inl IndexError)"

text \<open>\<^verbatim>\<open>C2[kk, Js]\<close>: row \<open>kk\<close> of a table, then the columns \<open>Js\<close>.\<close>

definition np_row_take :: "real list list \<Rightarrow> nat \<Rightarrow> nat list \<Rightarrow> py_error + real list" where
  "np_row_take C2 kk Js = (if kk < length C2 then np_take (C2 ! kk) Js else Inl IndexError)"

text \<open>\<^verbatim>\<open>C2[kk, :] = r\<close>: a row assignment.\<close>

definition np_set_row :: "'a list \<Rightarrow> nat \<Rightarrow> 'a \<Rightarrow> py_error + 'a list" where
  "np_set_row C2 kk r = (if kk < length C2 then Inr (C2[kk := r]) else Inl IndexError)"

text \<open>
  \<^verbatim>\<open>np.setxor1d(a, b)\<close>: the sorted, duplicate-free values that are in exactly one of the
  two arrays. With \<open>a = np.arange(p)\<close> and \<open>b\<close> a set of dimensions below \<open>p\<close> it is the
  complement of \<open>b\<close>.
\<close>

definition setxor1d :: "nat list \<Rightarrow> nat list \<Rightarrow> nat list" where
  "setxor1d a b = sort (remdups ([x \<leftarrow> a. x \<notin> set b] @ [x \<leftarrow> b. x \<notin> set a]))"

section \<open>The analytic integral kernel\<close>

subsection \<open>\<^verbatim>\<open>varf\<close> (lines 391--407)\<close>

text \<open>
  One cell of \<^verbatim>\<open>Vf\<close>: the value starts at 1, is replaced by \<^verbatim>\<open>np.prod(C2[kk, Js])\<close>
  when \<^verbatim>\<open>len(Js) != 0\<close>, and is multiplied by the factor built from \<^verbatim>\<open>ef\<close> when
  \<^verbatim>\<open>len(ll) != 0\<close>. The factor is \<open>ef[ii] * ef[jj]\<close> off the diagonal and
  \<open>ef[ii]**2\<close> on it, so it is passed in as \<open>effac\<close>.
\<close>

definition varf_cell ::
  "nat list \<Rightarrow> nat list \<Rightarrow> real list list \<Rightarrow> nat \<Rightarrow> (real \<Rightarrow> py_error + real)
     \<Rightarrow> py_error + real" where
  "varf_cell Js ll C2 kk effac =
     ebind (if Js \<noteq> [] then ebind (np_row_take C2 kk Js) (\<lambda>r. Inr (prod_list r)) else Inr 1)
       (\<lambda>v. if ll \<noteq> [] then effac v else Inr v)"

definition varf ::
  "nat \<Rightarrow> nat \<Rightarrow> nat list \<Rightarrow> real list list \<Rightarrow> real list \<Rightarrow> py_error + (nat \<Rightarrow> nat \<Rightarrow> real)" where
  "varf m p Js C2 ef =
    (let kk = 0;
         ll = setxor1d [0..<p] Js;
         Vf = (\<lambda>i j. 0)
     in ebind
          (for_loop [0..<m - 1] (\<lambda>ii.
             for_loop [ii + 1..<m] (\<lambda>jj (kk, Vf).
               ebind (varf_cell Js ll C2 kk
                        (\<lambda>v. ebind (np_get ef ii) (\<lambda>a. ebind (np_get ef jj) (\<lambda>b. Inr (v * a * b)))))
                 (\<lambda>v. Inr (kk + 1, Vf(ii := (Vf ii)(jj := v))))))
             (kk, Vf))
          (\<lambda>(kk, Vf).
             let Vf = (\<lambda>i j. Vf i j + Vf j i)
             in ebind
                  (for_loop [0..<m] (\<lambda>ii (kk, Vf).
                     let kk = kk + 1
                     in ebind (varf_cell Js ll C2 kk (\<lambda>v. ebind (np_get ef ii) (\<lambda>a. Inr (v * a\<^sup>2))))
                          (\<lambda>v. Inr (kk, Vf(ii := (Vf ii)(ii := v)))))
                     (kk, Vf))
                  (\<lambda>(kk, Vf). Inr Vf)))"

text \<open>
  The pairs \<open>(ii, jj)\<close> that the loop nest \<^verbatim>\<open>for ii in range(n): for jj in range(ii+1, m)\<close>
  visits, in the order of the visits. With \<open>n = m\<close> it is also
  \<^verbatim>\<open>itertools.combinations(range(m), 2)\<close>.
\<close>

definition offdiag :: "nat \<Rightarrow> nat \<Rightarrow> (nat \<times> nat) list" where
  "offdiag n m = concat (map (\<lambda>ii. map (Pair ii) [ii + 1..<m]) [0..<n])"

text \<open>
  The row of \<^verbatim>\<open>C2\<close> for the pair \<open>i < j\<close> of sample points, and the row for the
  self-pair of the sample point \<open>i\<close>, among \<open>m\<close> sample points.
\<close>

definition pair_row :: "nat \<Rightarrow> nat \<Rightarrow> nat \<Rightarrow> nat" where
  "pair_row m i j = i * m - i * (i + 1) div 2 + (j - i - 1)"

definition self_row :: "nat \<Rightarrow> nat \<Rightarrow> nat" where
  "self_row m i = m * (m - 1) div 2 + 1 + i"

subsection \<open>\<^verbatim>\<open>calc1\<close>, \<^verbatim>\<open>calc3\<close>, \<^verbatim>\<open>calc2\<close> (lines 365--389)\<close>

text \<open>
  \<^verbatim>\<open>scipy.stats.norm.cdf\<close> is a library function; it is the parameter \<open>ncdf\<close>.
  \<^verbatim>\<open>scipy.stats.norm.pdf\<close> is the standard normal density. The three functions work
  elementwise on arrays with one entry per input dimension; \<open>rg\<close> is a list of rows
  \<open>(rg[d, 0], rg[d, 1])\<close>.
\<close>

definition npdf :: "real \<Rightarrow> real" where
  "npdf x = exp (- x\<^sup>2 / 2) / sqrt (2 * pi)"

definition calc1 :: "(real \<Rightarrow> real) \<Rightarrow> real list \<Rightarrow> real list \<Rightarrow> real list" where
  "calc1 ncdf beta diff =
     map (\<lambda>(b, d). (sqrt (pi / b) * d * (2 * ncdf (sqrt (2 * b) * d) - 1)
                       - (1 / b) * (1 - sqrt (2 * pi) * npdf (sqrt (2 * b) * d))) / d\<^sup>2)
       (zip beta diff)"

definition calc3 ::
  "(real \<Rightarrow> real) \<Rightarrow> real list \<Rightarrow> (real \<times> real) list \<Rightarrow> real list \<Rightarrow> real list \<Rightarrow> real list" where
  "calc3 ncdf x rg beta diff =
     map (\<lambda>(x, (lo, hi), b, d).
            sqrt (pi / b) * (ncdf (sqrt (2 * b) * (hi - x)) - ncdf (sqrt (2 * b) * (lo - x))) / d)
       (zip x (zip rg (zip beta diff)))"

text \<open>\<^verbatim>\<open>x[ii, :]\<close>: one row of a two-dimensional array.\<close>

definition np_row :: "'a list \<Rightarrow> nat \<Rightarrow> py_error + 'a" where
  "np_row x ii = (if ii < length x then Inr (x ! ii) else Inl IndexError)"

text \<open>
  The two kinds of rows \<^verbatim>\<open>calc2\<close> stores. \<^verbatim>\<open>SepiaDistCov\<close> is not among the sources:
  \<open>sqdist ii jj\<close> stands for \<^verbatim>\<open>xdist.sqdist[di, :]\<close>, the row of squared distances that
  \<^verbatim>\<open>xdist\<close> holds for the pair of sample points \<open>(ii, jj)\<close>.
\<close>

definition calc2_pair ::
  "(real \<Rightarrow> real) \<Rightarrow> real list list \<Rightarrow> (nat \<Rightarrow> nat \<Rightarrow> real list) \<Rightarrow> (real \<times> real) list
     \<Rightarrow> real list \<Rightarrow> real list \<Rightarrow> nat \<times> nat \<Rightarrow> py_error + real list" where
  "calc2_pair ncdf x sqdist rg beta diff ij =
     ebind (np_row x (fst ij)) (\<lambda>xi. ebind (np_row x (snd ij)) (\<lambda>xj.
       let mp = map2 (\<lambda>a b. (a + b) / 2) xi xj
       in Inr (map2 (*) (calc3 ncdf mp rg (map ((*) 2) beta) diff)
                 (map2 (\<lambda>b s. exp (- b * s / 2)) beta (sqdist (fst ij) (snd ij))))))"

definition calc2_self ::
  "(real \<Rightarrow> real) \<Rightarrow> real list list \<Rightarrow> (real \<times> real) list \<Rightarrow> real list \<Rightarrow> real list
     \<Rightarrow> nat \<times> nat \<Rightarrow> py_error + real list" where
  "calc2_self ncdf x rg beta diff ij =
     ebind (np_row x (fst ij)) (\<lambda>xi. Inr (calc3 ncdf xi rg (map ((*) 2) beta) diff))"

definition calc2 ::
  "(real \<Rightarrow> real) \<Rightarrow> real list list \<Rightarrow> (nat \<Rightarrow> nat \<Rightarrow> real list) \<Rightarrow> nat \<Rightarrow> (real \<times> real) list
     \<Rightarrow> real list \<Rightarrow> real list \<Rightarrow> py_error + real list list" where
  "calc2 ncdf x sqdist m rg beta diff =
    (let kk = 0;
         C2 = replicate (m * (m + 1) div 2 + m) (replicate (length beta) 0)
     in ebind
          (for_loop [0..<m] (\<lambda>ii.
             for_loop [ii + 1..<m] (\<lambda>jj (kk, C2).
               ebind (calc2_pair ncdf x sqdist rg beta diff (ii, jj))
                 (\<lambda>r. ebind (np_set_row C2 kk r) (\<lambda>C2. Inr (kk + 1, C2)))))
             (kk, C2))
          (\<lambda>(kk, C2).
             ebind
               (for_loop [0..<m] (\<lambda>ii (kk, C2).
                  let kk = kk + 1
                  in ebind (calc2_self ncdf x rg beta diff (ii, ii))
                       (\<lambda>r. ebind (np_set_row C2 kk r) (\<lambda>C2. Inr (kk, C2))))
                  (kk, C2))
               (\<lambda>(kk, C2). Inr C2)))"

section \<open>The per-component engine: \<^verbatim>\<open>component_sens\<close> (lines 240--363)\<close>

text \<open>\<open>[f(x) for x in xs]\<close>, stopping at the first exception.\<close>

fun emap :: "('a \<Rightarrow> py_error + 'b) \<Rightarrow> 'a list \<Rightarrow> py_error + 'b list" where
  "emap f [] = Inr []"
| "emap f (x # xs) = ebind (f x) (\<lambda>y. ebind (emap f xs) (\<lambda>ys. Inr (y # ys)))"

text \<open>\<^verbatim>\<open>np.prod(c3[:, ll], 1)\<close>: for every row, the product of the columns \<open>ll\<close>.\<close>

definition prod_cols :: "real list list \<Rightarrow> nat list \<Rightarrow> py_error + real list" where
  "prod_cols c3 ll = emap (\<lambda>r. ebind (np_take r ll) (\<lambda>v. Inr (prod_list v))) c3"

text \<open>
  \<^verbatim>\<open>np.trace(np.squeeze(Q[ii, :, :]) @ V)\<close> for \<open>m \<times> m\<close> matrices. For \<open>m = 1\<close> the
  squeeze leaves a zero-dimensional array, which \<^verbatim>\<open>@\<close> refuses with a ValueError.
\<close>

definition trace_matmul :: "nat \<Rightarrow> (nat \<Rightarrow> nat \<Rightarrow> real) \<Rightarrow> (nat \<Rightarrow> nat \<Rightarrow> real) \<Rightarrow> py_error + real" where
  "trace_matmul m Q V =
     (if m = 1 then Inl ValueError
      else Inr (\<Sum>i\<leftarrow>[0..<m]. \<Sum>k\<leftarrow>[0..<m]. Q i k * V k i))"

text \<open>
  \<^verbatim>\<open>np.trace(np.squeeze(Q[ii, :, :]) * V)\<close>: the operator \<^verbatim>\<open>*\<close> multiplies entry by entry
  (and broadcasts the zero-dimensional array when \<open>m = 1\<close>).
\<close>

definition trace_times :: "nat \<Rightarrow> (nat \<Rightarrow> nat \<Rightarrow> real) \<Rightarrow> (nat \<Rightarrow> nat \<Rightarrow> real) \<Rightarrow> real" where
  "trace_times m Q V = (\<Sum>i\<leftarrow>[0..<m]. Q i i * V i i)"

text \<open>The values one posterior draw (one pass of the loop of lines 297--349) stores.\<close>

record draw_out =
  d_e0 :: real
  d_e2 :: real
  d_vt :: real
  d_sme :: "real list"
  d_ste :: "real list"
  d_mef :: "(real list \<times> real list) list"
  d_sie :: "real list option"
  d_jef :: "(real list \<times> real list) list option"
  d_sje :: "real list option"

text \<open>
  Lines 314--328 for one input dimension \<open>jj\<close>: the main-effect index, the main-effect
  function and the total-effect index. \<^verbatim>\<open>etae\<close> builds on the covariance matrices of
  \<^verbatim>\<open>SepiaDistCov\<close>, which is not among the sources; \<open>etae Js ef vf k\<close> stands for the pair
  \<open>(ee.m, ee.v)\<close> that the call with the index set \<open>Js\<close>, the factors \<open>ef\<close> and \<open>vf\<close>
  and the \<open>k\<close>-th distance objects returns for this draw.
\<close>

definition main_total ::
  "nat \<Rightarrow> nat \<Rightarrow> real \<Rightarrow> (nat \<Rightarrow> nat \<Rightarrow> real) \<Rightarrow> real list \<Rightarrow> real list list \<Rightarrow> real list list
     \<Rightarrow> (nat list \<Rightarrow> real list \<Rightarrow> real \<Rightarrow> nat \<Rightarrow> real list \<times> real list)
     \<Rightarrow> real \<Rightarrow> real \<Rightarrow> nat \<Rightarrow> py_error + real \<times> (real list \<times> real list) \<times> real" where
  "main_total m p lamUzi Q c1 C2 c3 etae e2 vt jj =
    (let Js = [jj];
         ll = setxor1d [0..<p] Js
     in ebind (prod_cols c3 ll) (\<lambda>u1.
        ebind (np_take c1 ll) (\<lambda>c1ll.
        let u4 = prod_list c1ll
        in ebind (varf m p Js C2 u1) (\<lambda>V.
           ebind (trace_matmul m Q V) (\<lambda>t.
           let sme = u4 / lamUzi - t / lamUzi\<^sup>2 - e2;
               sme = sme / vt;
               ME = etae Js u1 u4 jj;
               ll = [jj];
               Js = setxor1d [0..<p] ll
           in ebind (prod_cols c3 ll) (\<lambda>u2.
              ebind (np_get c1 jj) (\<lambda>c1jj.
              ebind (varf m p Js C2 u2) (\<lambda>V.
              ebind (trace_matmul m Q V) (\<lambda>t.
              let ste = c1jj / lamUzi - t / lamUzi\<^sup>2 - e2;
                  ste = 1 - ste / vt
              in Inr (sme, ME, ste))))))))))"

text \<open>Lines 331--340 for one requested pair \<open>Js = varlist[jj]\<close>.\<close>

definition pair_effect ::
  "nat \<Rightarrow> nat \<Rightarrow> real \<Rightarrow> (nat \<Rightarrow> nat \<Rightarrow> real) \<Rightarrow> real list \<Rightarrow> real list list \<Rightarrow> real list list
     \<Rightarrow> (nat list \<Rightarrow> real list \<Rightarrow> real \<Rightarrow> nat \<Rightarrow> real list \<times> real list)
     \<Rightarrow> real \<Rightarrow> real \<Rightarrow> real list \<Rightarrow> nat \<times> (nat \<times> nat) \<Rightarrow> py_error + real \<times> (real list \<times> real list)" where
  "pair_effect m p lamUzi Q c1 C2 c3 etae e2 vt sme jv =
    (let Js = [fst (snd jv), snd (snd jv)];
         ll = setxor1d [0..<p] Js
     in ebind (prod_cols c3 ll) (\<lambda>u3.
        ebind (np_take c1 ll) (\<lambda>c1ll.
        let u5 = prod_list c1ll
        in ebind (varf m p Js C2 u3) (\<lambda>V.
           let sie = u5 / lamUzi - trace_times m Q V / lamUzi\<^sup>2 - e2
           in ebind (np_get sme (fst (snd jv))) (\<lambda>s0.
              ebind (np_get sme (snd (snd jv))) (\<lambda>s1.
              let sie = sie / vt - s0 - s1;
                  JE = etae Js u3 u5 (p + fst jv)
              in Inr (sie, JE)))))))"

text \<open>Lines 343--349 for one requested index set \<open>Js = jelist[jj]\<close>.\<close>

definition joint_effect ::
  "nat \<Rightarrow> nat \<Rightarrow> real \<Rightarrow> (nat \<Rightarrow> nat \<Rightarrow> real) \<Rightarrow> real list \<Rightarrow> real list list \<Rightarrow> real list list
     \<Rightarrow> real \<Rightarrow> real \<Rightarrow> nat list \<Rightarrow> py_error + real" where
  "joint_effect m p lamUzi Q c1 C2 c3 e2 vt Js =
    (let ll = setxor1d [0..<p] Js
     in ebind (prod_cols c3 ll) (\<lambda>u6.
        ebind (np_take c1 ll) (\<lambda>c1ll.
        let u7 = prod_list c1ll
        in ebind (varf m p Js C2 u6) (\<lambda>V.
           let sje = u7 / lamUzi - trace_times m Q V / lamUzi\<^sup>2 - e2
           in Inr (sje / vt)))))"

text \<open>
  One pass of the loop of lines 297--349, after \<open>c1\<close>, \<open>C2\<close> and \<open>c3\<close> have been computed
  (lines 302--306).
\<close>

definition component_draw ::
  "nat \<Rightarrow> nat \<Rightarrow> real \<Rightarrow> (nat \<Rightarrow> nat \<Rightarrow> real) \<Rightarrow> real list \<Rightarrow> real list \<Rightarrow> real list list
     \<Rightarrow> real list list \<Rightarrow> (nat \<times> nat) list option \<Rightarrow> nat list list option
     \<Rightarrow> (nat list \<Rightarrow> real list \<Rightarrow> real \<Rightarrow> nat \<Rightarrow> real list \<times> real list) \<Rightarrow> py_error + draw_out" where
  "component_draw m p lamUzi Q My c1 C2 c3 varlist jelist etae =
    (let u2 = map prod_list c3
     in ebind (varf m p [] C2 u2) (\<lambda>V.
        ebind (trace_matmul m Q V) (\<lambda>t.
        let e2 = prod_list c1 / lamUzi - t / lamUzi\<^sup>2;
            e0 = (\<Sum>(u, y)\<leftarrow>zip u2 My. u * y) / lamUzi
        in ebind (varf m p [0..<p] C2 []) (\<lambda>V.
           ebind (trace_matmul m Q V) (\<lambda>t.
           let vt = 1 / lamUzi - t / lamUzi\<^sup>2 - e2
           in ebind (emap (main_total m p lamUzi Q c1 C2 c3 etae e2 vt) [0..<p]) (\<lambda>mts.
              let sme = map fst mts;
                  ste = map (snd \<circ> snd) mts
              in ebind (case varlist of None \<Rightarrow> Inr None
                        | Some vl \<Rightarrow>
                            ebind (emap (pair_effect m p lamUzi Q c1 C2 c3 etae e2 vt sme)
                                     (zip [0..<length vl] vl))
                              (\<lambda>ps. Inr (Some ps))) (\<lambda>pairs.
                 ebind (case jelist of None \<Rightarrow> Inr None
                        | Some jl \<Rightarrow>
                            ebind (emap (joint_effect m p lamUzi Q c1 C2 c3 e2 vt) jl)
                              (\<lambda>js. Inr (Some js))) (\<lambda>sje.
                 Inr \<lparr>d_e0 = e0, d_e2 = e2, d_vt = vt, d_sme = sme, d_ste = ste,
                      d_mef = map (fst \<circ> snd) mts,
                      d_sie = map_option (map fst) pairs,
                      d_jef = map_option (map snd) pairs,
                      d_sje = sje\<rparr>))))))))"

text \<open>
  The dictionary \<^verbatim>\<open>sa\<close> that \<^verbatim>\<open>component_sens\<close> returns: the six keys that are always
  set, and the four that lines 357--362 set only when \<^verbatim>\<open>varlist\<close> or \<^verbatim>\<open>jelist\<close> is
  truthy. An absent key is \<open>None\<close>. Arrays over the draws are lists over the draws.
\<close>

record sa_dict =
  sa_e0 :: "real list"
  sa_vt :: "real list"
  sa_sme :: "real list list"
  sa_ste :: "real list list"
  sa_mef_m :: "real list list list"
  sa_mef_v :: "real list list list"
  sa_sie :: "real list list option"
  sa_jef_m :: "real list list list option"
  sa_jef_v :: "real list list list option"
  sa_sje :: "real list list option"

text \<open>\<^verbatim>\<open>d[key]\<close> on a dictionary.\<close>

definition dict_get :: "'a option \<Rightarrow> py_error + 'a" where
  "dict_get v = (case v of None \<Rightarrow> Inl KeyError | Some a \<Rightarrow> Inr a)"

text \<open>The value of a Python variable that is an array when the list was given.\<close>

definition opt_list :: "'a list option \<Rightarrow> 'a list" where
  "opt_list v = (case v of None \<Rightarrow> [] | Some l \<Rightarrow> l)"

text \<open>Python's truth value of \<^verbatim>\<open>varlist\<close> or \<^verbatim>\<open>jelist\<close>: \<open>None\<close> and \<open>[]\<close> are false.\<close>

definition truthy :: "'a list option \<Rightarrow> bool" where
  "truthy v = (case v of None \<Rightarrow> False | Some l \<Rightarrow> l \<noteq> [])"

text \<open>
  \<^verbatim>\<open>component_sens\<close>. The parameters \<open>ncdf\<close>, \<open>sqdist\<close> and \<open>etae\<close> are as above;
  \<open>gp ii\<close> stands for the pair \<open>(P[ii], My[:, ii])\<close> of lines 270--272, the inverse of
  the covariance matrix of \<^verbatim>\<open>SepiaDistCov\<close> and the solution of the linear system, for the
  draw \<open>ii\<close>. \<open>p\<close> is \<^verbatim>\<open>beta.shape[1]\<close>, which a list of rows does not record when it is
  empty. The first three loops are the reading parts of lines 250--252, 254--258 and
  264--273.
\<close>

definition component_sens ::
  "(real \<Rightarrow> real) \<Rightarrow> (nat \<Rightarrow> nat \<Rightarrow> real list) \<Rightarrow> (nat \<Rightarrow> (nat \<Rightarrow> nat \<Rightarrow> real) \<times> real list)
     \<Rightarrow> (nat \<Rightarrow> nat list \<Rightarrow> real list \<Rightarrow> real \<Rightarrow> nat \<Rightarrow> real list \<times> real list)
     \<Rightarrow> real list list \<Rightarrow> real list list \<Rightarrow> nat \<Rightarrow> real list \<Rightarrow> real list \<Rightarrow> real list list
     \<Rightarrow> (nat \<times> nat) list option \<Rightarrow> nat list list option \<Rightarrow> (real \<times> real) list
     \<Rightarrow> py_error + sa_dict" where
  "component_sens ncdf sqdist gp etae x beta p lamUz lamWs xe varlist jelist rg =
    (let diff = map (\<lambda>(lo, hi). hi - lo) rg;
         nmcmc = length beta;
         m = length x
     in ebind (emap (\<lambda>ii. ebind (emap (\<lambda>r. np_get r ii) xe) (\<lambda>a. emap (\<lambda>r. np_get r ii) x))
                 [0..<p]) (\<lambda>_.
        ebind (emap (\<lambda>v. ebind (emap (\<lambda>r. np_get r (fst v)) xe) (\<lambda>a.
                         ebind (emap (\<lambda>r. np_get r (snd v)) xe) (\<lambda>b.
                         emap (\<lambda>r. np_take r [fst v, snd v]) x)))
                 (opt_list varlist)) (\<lambda>_.
        ebind (emap (\<lambda>ii. ebind (np_row beta ii) (\<lambda>betaei.
                           ebind (np_get lamUz ii) (\<lambda>lamUzi. np_get lamWs ii)))
                 [0..<nmcmc]) (\<lambda>_.
        ebind (emap (\<lambda>ii.
                 ebind (np_row beta ii) (\<lambda>betaei.
                 ebind (np_get lamUz ii) (\<lambda>lamUzi.
                 ebind (np_get lamWs ii) (\<lambda>lamWsi.
                 let P = fst (gp ii);
                     My = snd (gp ii);
                     Q = (\<lambda>i j. P i j - My ! i * My ! j);
                     c1 = calc1 ncdf betaei diff
                 in ebind (calc2 ncdf x sqdist m rg betaei diff) (\<lambda>C2.
                    let c3 = map (\<lambda>xr. calc3 ncdf xr rg betaei diff) x
                    in component_draw m p lamUzi Q My c1 C2 c3 varlist jelist (etae ii))))))
                 [0..<nmcmc]) (\<lambda>ds.
        Inr \<lparr>sa_e0 = map d_e0 ds,
             sa_vt = map d_vt ds,
             sa_sme = map d_sme ds,
             sa_ste = map d_ste ds,
             sa_mef_m = map (map fst \<circ> d_mef) ds,
             sa_mef_v = map (map snd \<circ> d_mef) ds,
             sa_sie = (if truthy varlist then Some (map (opt_list \<circ> d_sie) ds) else None),
             sa_jef_m = (if truthy varlist then Some (map (map fst \<circ> opt_list \<circ> d_jef) ds) else None),
             sa_jef_v = (if truthy varlist then Some (map (map snd \<circ> opt_list \<circ> d_jef) ds) else None),
             sa_sje = (if truthy jelist then Some (map (opt_list \<circ> d_sje) ds) else None)\<rparr>)))))"

section \<open>The aggregator: \<^verbatim>\<open>sensitivity\<close> (lines 8--238)\<close>

text \<open>
  What the aggregator reads from the fitted model: the counts \<open>p\<close>, \<open>q\<close>, \<open>pu\<close>, the
  posterior samples, the simulation design \<^verbatim>\<open>model.data.zt\<close> and the basis
  \<^verbatim>\<open>model.data.sim_data.K\<close> (\<open>None\<close> when there is no basis), one row per basis component.
\<close>

record samples =
  s_betaU :: "real list list"
  s_lamUz :: "real list list"
  s_lamWs :: "real list list"

record sens_model =
  m_p :: nat
  m_q :: nat
  m_pu :: nat
  m_samples :: samples
  m_zt :: "real list list"
  m_K :: "real list list option"

text \<open>
  The computations that \<^verbatim>\<open>sensitivity\<close> leaves to code that is not among the sources,
  per basis component: \<open>x_gp jj ii\<close> and \<open>x_etae jj ii\<close> are the parameters \<open>gp\<close> and
  \<open>etae\<close> of \<open>component_sens\<close> for the component \<open>jj\<close>.
\<close>

record externals =
  x_ncdf :: "real \<Rightarrow> real"
  x_sqdist :: "nat \<Rightarrow> nat \<Rightarrow> real list"
  x_gp :: "nat \<Rightarrow> nat \<Rightarrow> (nat \<Rightarrow> nat \<Rightarrow> real) \<times> real list"
  x_etae :: "nat \<Rightarrow> nat \<Rightarrow> nat list \<Rightarrow> real list \<Rightarrow> real \<Rightarrow> nat \<Rightarrow> real list \<times> real list"

text \<open>
  The argument \<^verbatim>\<open>option\<close> is a string, a dictionary of samples or any other object;
  \<^verbatim>\<open>varlist\<close> is \<open>None\<close>, the string \<^verbatim>\<open>'all'\<close> or a list of pairs.
\<close>

datatype py_option = OptStr string | OptDict samples | OptOther

datatype varlist_arg = VarNone | VarAll | VarList "(nat \<times> nat) list"

text \<open>
  The values the variable \<^verbatim>\<open>ii0\<close> can hold after line 55: \<^verbatim>\<open>np.where\<close> with one
  argument returns a tuple of index arrays, one per dimension of the condition.
\<close>

datatype pyobj = PyTuple "nat list list" | PyArray "nat list"

definition np_where :: "bool list \<Rightarrow> pyobj" where
  "np_where c = PyTuple [[i \<leftarrow> [0..<length c]. c ! i]]"

text \<open>\<^verbatim>\<open>v.shape[0]\<close>: a tuple has no attribute \<^verbatim>\<open>shape\<close>.\<close>

definition shape0 :: "pyobj \<Rightarrow> py_error + nat" where
  "shape0 v = (case v of PyTuple t \<Rightarrow> Inl AttributeError | PyArray a \<Rightarrow> Inr (length a))"

text \<open>The index values of \<open>v\<close>, as \<^verbatim>\<open>np.setxor1d\<close> flattens its argument.\<close>

definition flat :: "pyobj \<Rightarrow> nat list" where
  "flat v = (case v of PyTuple t \<Rightarrow> concat t | PyArray a \<Rightarrow> a)"

text \<open>
  Lines 50--59 and 63--64: the ranges and the indices of the active dimensions. The
  result is \<open>(nv, rg, ii0)\<close>.
\<close>

definition sens_domain ::
  "nat \<Rightarrow> (real \<times> real) list option \<Rightarrow> py_error + nat \<times> (real \<times> real) list \<times> nat list" where
  "sens_domain nv rg =
     (case rg of
        None \<Rightarrow> Inr (nv, replicate nv (0, 1), [0..<nv])
      | Some rg \<Rightarrow>
          let ii0 = np_where (map (\<lambda>(lo, hi). lo = hi) rg)
          in ebind (shape0 ii0) (\<lambda>n.
               if n > 0
               then let ii0 = setxor1d [0..<nv] (flat ii0);
                        nv = length ii0
                    in ebind (emap (np_row rg) ii0) (\<lambda>rg. Inr (nv, rg, ii0))
               else Inr (nv, rg, flat ii0)))"

text \<open>\<^verbatim>\<open>np.linspace(lo, hi, ngrid)\<close> for every active dimension (lines 67--69).\<close>

definition grid :: "nat \<Rightarrow> (real \<times> real) list \<Rightarrow> real list list" where
  "grid ngrid rg =
     map (\<lambda>k. map (\<lambda>(lo, hi). if ngrid = 1 then lo
                            else lo + real k * ((hi - lo) / real (ngrid - 1))) rg)
       [0..<ngrid]"

text \<open>\<^verbatim>\<open>np.mean(a, 0, keepdims=True)\<close> and \<^verbatim>\<open>np.median(a, 0, keepdims=True)\<close>.\<close>

definition column :: "real list list \<Rightarrow> nat \<Rightarrow> real list" where
  "column a k = map (\<lambda>r. r ! k) a"

definition mean :: "real list \<Rightarrow> real" where
  "mean xs = sum_list xs / real (length xs)"

definition median :: "real list \<Rightarrow> real" where
  "median xs =
     (let s = sort xs; n = length s
      in if even n then (s ! (n div 2 - 1) + s ! (n div 2)) / 2 else s ! (n div 2))"

definition mean0 :: "nat \<Rightarrow> real list list \<Rightarrow> real list" where
  "mean0 ncols a = map (\<lambda>k. mean (column a k)) [0..<ncols]"

definition median0 :: "nat \<Rightarrow> real list list \<Rightarrow> real list" where
  "median0 ncols a = map (\<lambda>k. median (column a k)) [0..<ncols]"

definition width :: "real list list \<Rightarrow> nat" where
  "width a = (case a of [] \<Rightarrow> 0 | r # rs \<Rightarrow> length r)"

text \<open>
  Lines 72--88: the parameter values to use, or \<open>None\<close> on the last branch, which
  prints a message and returns.
\<close>

definition resolve_option :: "py_option \<Rightarrow> samples \<Rightarrow> samples option" where
  "resolve_option option s =
     (if option = OptStr ''samples'' then Some s
      else if option = OptStr ''mean''
      then Some \<lparr>s_betaU = [mean0 (width (s_betaU s)) (s_betaU s)],
                 s_lamUz = [mean0 (width (s_lamUz s)) (s_lamUz s)],
                 s_lamWs = [mean0 (width (s_lamWs s)) (s_lamWs s)]\<rparr>
      else if option = OptStr ''median''
      then Some \<lparr>s_betaU = [median0 (width (s_betaU s)) (s_betaU s)],
                 s_lamUz = [median0 (width (s_lamUz s)) (s_lamUz s)],
                 s_lamWs = [median0 (width (s_lamWs s)) (s_lamWs s)]\<rparr>
      else (case option of OptDict d \<Rightarrow> Some d | _ \<Rightarrow> None))"

text \<open>
  Lines 113--119: \<^verbatim>\<open>ksmm\<close> is the transpose of the basis, or \<open>[[1]]\<close>, and \<^verbatim>\<open>lam\<close> is
  the diagonal of \<^verbatim>\<open>ksmm.T @ ksmm\<close>.
\<close>

definition matmul :: "real list list \<Rightarrow> real list list \<Rightarrow> real list list" where
  "matmul A B = map (\<lambda>r. map (\<lambda>c. \<Sum>(a, b)\<leftarrow>zip r c. a * b) (transpose B)) A"

definition np_diag :: "real list list \<Rightarrow> real list" where
  "np_diag G = map (\<lambda>i. G ! i ! i) [0..<min (length G) (width G)]"

definition ksmm_of :: "real list list option \<Rightarrow> real list list" where
  "ksmm_of K = (case K of Some K \<Rightarrow> transpose K | None \<Rightarrow> [[1]])"

definition lam_of :: "real list list option \<Rightarrow> real list" where
  "lam_of K = (let ksmm = ksmm_of K in np_diag (matmul (transpose ksmm) ksmm))"

text \<open>
  \<^verbatim>\<open>lam[jj] * sa[jj][key][ii, :] * sa[jj]['vt'][ii]\<close>, where \<open>field\<close> is the lookup
  of the key.
\<close>

definition weighted_row ::
  "real list \<Rightarrow> sa_dict list \<Rightarrow> (sa_dict \<Rightarrow> py_error + real list list) \<Rightarrow> nat \<Rightarrow> nat
     \<Rightarrow> py_error + real list" where
  "weighted_row lam sa field ii jj =
     ebind (np_get lam jj) (\<lambda>l.
     ebind (np_row sa jj) (\<lambda>s.
     ebind (field s) (\<lambda>a.
     ebind (np_row a ii) (\<lambda>r.
     ebind (np_get (sa_vt s) ii) (\<lambda>v. Inr (map (\<lambda>x. l * x * v) r))))))"

text \<open>
  \<^verbatim>\<open>a += b\<close> on one-dimensional arrays: \<open>b\<close> has the length of \<open>a\<close> or is broadcast
  from length one.
\<close>

definition np_iadd :: "real list \<Rightarrow> real list \<Rightarrow> py_error + real list" where
  "np_iadd a b =
     (if length b = length a then Inr (map2 (+) a b)
      else if length b = 1 then Inr (map (\<lambda>x. x + b ! 0) a)
      else Inl ValueError)"

text \<open>
  Lines 120--131. For every draw \<open>ii\<close> the result holds the rows \<open>sme[ii, :]\<close>,
  \<open>ste[ii, :]\<close> and the value \<open>vt[ii]\<close>.
\<close>

definition agg_main ::
  "real list \<Rightarrow> sa_dict list \<Rightarrow> nat \<Rightarrow> nat \<Rightarrow> nat
     \<Rightarrow> py_error + (real list \<times> real list \<times> real) list" where
  "agg_main lam sa npvec nv pu =
     emap (\<lambda>ii.
       ebind (for_loop [0..<pu] (\<lambda>jj (sme, ste, vt0).
                ebind (weighted_row lam sa (\<lambda>s. Inr (sa_sme s)) ii jj) (\<lambda>a.
                ebind (np_iadd sme a) (\<lambda>sme.
                ebind (weighted_row lam sa (\<lambda>s. Inr (sa_ste s)) ii jj) (\<lambda>b.
                ebind (np_iadd ste b) (\<lambda>ste.
                ebind (np_get lam jj) (\<lambda>l.
                ebind (np_row sa jj) (\<lambda>s.
                ebind (np_get (sa_vt s) ii) (\<lambda>v.
                Inr (sme, ste, vt0 + l * v)))))))))
                (replicate nv 0, replicate nv 0, 0))
         (\<lambda>(sme, ste, vt0). Inr (map (\<lambda>x. x / vt0) sme, map (\<lambda>x. x / vt0) ste, vt0)))
       [0..<npvec]"

text \<open>Lines 138--142 for the key \<^verbatim>\<open>'sie'\<close>, and lines 147--151 for the key \<^verbatim>\<open>'sje'\<close>.\<close>

definition agg_extra ::
  "real list \<Rightarrow> sa_dict list \<Rightarrow> (sa_dict \<Rightarrow> py_error + real list list) \<Rightarrow> real list
     \<Rightarrow> nat \<Rightarrow> nat \<Rightarrow> nat \<Rightarrow> py_error + real list list" where
  "agg_extra lam sa field vt npvec ncols pu =
     emap (\<lambda>ii.
       ebind (for_loop [0..<pu] (\<lambda>jj acc.
                ebind (weighted_row lam sa field ii jj) (np_iadd acc))
                (replicate ncols 0))
         (\<lambda>acc. ebind (np_get vt ii) (\<lambda>v. Inr (map (\<lambda>x. x / v) acc))))
       [0..<npvec]"

text \<open>
  The part of the result bundle that holds the indices. Lines 155--218 rescale the effect
  functions to the output units; they read \<^verbatim>\<open>sa\<close>, change none of the values below, and
  are not part of the embedding, as \<^verbatim>\<open>totalMean\<close> and the effect functions of the bundle.
\<close>

record sens_bundle =
  b_sa :: "sa_dict list"
  b_totalVar :: "real list"
  b_smePm :: "real list"
  b_stePm :: "real list"
  b_siePm :: "real list option"
  b_sjePm :: "real list option"

text \<open>
  Lines 101--105 for the basis component \<open>ii\<close>: the slices of the parameter arrays and
  the call of \<^verbatim>\<open>component_sens\<close>.
\<close>

definition component_call ::
  "externals \<Rightarrow> samples \<Rightarrow> real list list \<Rightarrow> real list list \<Rightarrow> (nat \<times> nat) list option
     \<Rightarrow> nat list list option \<Rightarrow> (real \<times> real) list \<Rightarrow> nat \<Rightarrow> nat list \<Rightarrow> nat
     \<Rightarrow> py_error + sa_dict" where
  "component_call ext par sim_xt xe varlist jelist rg nv ii0 ii =
    (let bind = map (\<lambda>ind. ind + ii * nv) ii0
     in ebind (emap (\<lambda>r. np_take r bind) (s_betaU par)) (\<lambda>betaU_sub.
        ebind (emap (\<lambda>r. np_get r ii) (s_lamUz par)) (\<lambda>lamUz_sub.
        ebind (emap (\<lambda>r. np_get r ii) (s_lamWs par)) (\<lambda>lamWs_sub.
        ebind (emap (\<lambda>r. np_take r ii0) sim_xt) (\<lambda>x.
        component_sens (x_ncdf ext) (x_sqdist ext) (x_gp ext ii) (x_etae ext ii)
          x betaU_sub (length bind) lamUz_sub lamWs_sub xe varlist jelist rg)))))"

text \<open>\<open>varlist\<close> after lines 92--93.\<close>

definition expand_varlist :: "nat \<Rightarrow> varlist_arg \<Rightarrow> (nat \<times> nat) list option" where
  "expand_varlist nv varlist =
     (case varlist of VarNone \<Rightarrow> None | VarAll \<Rightarrow> Some (offdiag nv nv) | VarList l \<Rightarrow> Some l)"

definition msg_no_free :: string where
  "msg_no_free = ''error:  no free variables'' @ [CHR 0x0A]"

definition msg_invalid :: string where
  "msg_invalid =
     ''invalid option (choose mean, median, or samples, or pass dict of values for betaU, lamUz, lamWs)''"

text \<open>
  \<^verbatim>\<open>sensitivity\<close>. A result \<open>Inl e\<close> is the exception \<open>e\<close> reaching the caller; a result
  \<open>Inr (out, r)\<close> is a return, with the arguments of the calls of \<^verbatim>\<open>print\<close> in \<open>out\<close>
  and the returned value in \<open>r\<close>, where \<open>None\<close> is Python's \<open>None\<close>.
\<close>

definition sensitivity ::
  "externals \<Rightarrow> sens_model \<Rightarrow> samples option \<Rightarrow> nat \<Rightarrow> varlist_arg \<Rightarrow> nat list list option
     \<Rightarrow> (real \<times> real) list option \<Rightarrow> py_option
     \<Rightarrow> py_error + string list \<times> sens_bundle option" where
  "sensitivity ext M samples_dict ngrid varlist jelist rg option =
    (let p = m_p M;
         q = m_q M;
         nv = p + q;
         pu = m_pu M;
         samples_dict = (case samples_dict of None \<Rightarrow> m_samples M | Some s \<Rightarrow> s)
     in ebind (sens_domain nv rg) (\<lambda>(nv, rg, ii0).
        if nv = 0 then Inr ([msg_no_free], None)
        else
          let xe = grid ngrid rg
          in case resolve_option option samples_dict of
               None \<Rightarrow> Inr ([msg_invalid], None)
             | Some par \<Rightarrow>
                 let npvec = length (s_betaU par);
                     varlist = expand_varlist nv varlist;
                     sim_xt = m_zt M
                 in ebind
                      (emap (component_call ext par sim_xt xe varlist jelist rg nv ii0) [0..<pu])
                      (\<lambda>sa.
                         let lam = lam_of (m_K M)
                         in ebind (agg_main lam sa npvec nv pu) (\<lambda>rows.
                            let sme = map fst rows;
                                ste = map (fst \<circ> snd) rows;
                                vt = map (snd \<circ> snd) rows;
                                smePm = mean0 nv sme;
                                stePm = mean0 nv ste
                            in ebind
                                 (case varlist of None \<Rightarrow> Inr None
                                  | Some vl \<Rightarrow>
                                      ebind (agg_extra lam sa (\<lambda>s. dict_get (sa_sie s)) vt npvec
                                               (length vl) pu)
                                        (\<lambda>sie. Inr (Some (mean0 (length vl) sie))))
                                 (\<lambda>siePm.
                            ebind
                                 (case jelist of None \<Rightarrow> Inr None
                                  | Some jl \<Rightarrow>
                                      ebind (agg_extra lam sa (\<lambda>s. dict_get (sa_sje s)) vt npvec
                                               (length jl) pu)
                                        (\<lambda>sje. Inr (Some (mean0 (length jl) sje))))
                                 (\<lambda>sjePm.
                            Inr ([], Some \<lparr>b_sa = sa, b_totalVar = vt, b_smePm = smePm,
                                            b_stePm = stePm, b_siePm = siePm,
                                            b_sjePm = sjePm\<rparr>)))))))"

text \<open>
  A small model for the examples below: one input dimension, no calibration parameter,
  one basis component, two simulation runs and one posterior draw.
\<close>

definition example_ext :: externals where
  "example_ext = \<lparr>x_ncdf = (\<lambda>x. 1 / 2), x_sqdist = (\<lambda>i j. [1]),
                   x_gp = (\<lambda>jj ii. (\<lambda>i j. if i = j then 2 else 1, [1, 1])),
                   x_etae = (\<lambda>jj ii Js ef vf k. ([], []))\<rparr>"

definition example_model :: sens_model where
  "example_model = \<lparr>m_p = 1, m_q = 0, m_pu = 1,
                     m_samples = \<lparr>s_betaU = [[1]], s_lamUz = [[1]], s_lamWs = [[1]]\<rparr>,
                     m_zt = [[0], [1]], m_K = None\<rparr>"

section \<open>Definitions used in the statements and proofs\<close>

text \<open>
  The list \<open>xs\<close> paired with the values that a counter started at \<open>k0\<close> takes while a
  loop runs over \<open>xs\<close> and increments the counter once per pass.
\<close>

fun schedule :: "nat \<Rightarrow> 'a list \<Rightarrow> ('a \<times> nat) list" where
  "schedule k0 [] = []"
| "schedule k0 (x # xs) = (x, k0) # schedule (Suc k0) xs"

definition fill_step ::
  "(nat \<times> nat \<Rightarrow> nat \<Rightarrow> py_error + real) \<Rightarrow> nat \<times> nat \<Rightarrow> nat \<Rightarrow> (nat \<Rightarrow> nat \<Rightarrow> real)
     \<Rightarrow> py_error + (nat \<Rightarrow> nat \<Rightarrow> real)" where
  "fill_step cell x kk Vf = ebind (cell x kk) (\<lambda>v. Inr (Vf(fst x := (Vf (fst x))(snd x := v))))"

definition filled ::
  "(nat \<times> nat \<Rightarrow> nat \<Rightarrow> py_error + real) \<Rightarrow> ((nat \<times> nat) \<times> nat) list \<Rightarrow> (nat \<Rightarrow> nat \<Rightarrow> real)
     \<Rightarrow> nat \<Rightarrow> nat \<Rightarrow> real" where
  "filled cell sch V0 = (\<lambda>i j. case map_of sch (i, j) of None \<Rightarrow> V0 i j
                                   | Some kk \<Rightarrow> projr (cell (i, j) kk))"

definition cell_pair ::
  "nat list \<Rightarrow> nat list \<Rightarrow> real list list \<Rightarrow> real list \<Rightarrow> nat \<times> nat \<Rightarrow> nat \<Rightarrow> py_error + real" where
  "cell_pair Js ll C2 ef x kk =
     varf_cell Js ll C2 kk
       (\<lambda>v. ebind (np_get ef (fst x)) (\<lambda>a. ebind (np_get ef (snd x)) (\<lambda>b. Inr (v * a * b))))"

definition cell_diag ::
  "nat list \<Rightarrow> nat list \<Rightarrow> real list list \<Rightarrow> real list \<Rightarrow> nat \<times> nat \<Rightarrow> nat \<Rightarrow> py_error + real" where
  "cell_diag Js ll C2 ef x kk =
     varf_cell Js ll C2 kk (\<lambda>v. ebind (np_get ef (fst x)) (\<lambda>a. Inr (v * a\<^sup>2)))"

definition row_ok :: "nat list \<Rightarrow> real list list \<Rightarrow> nat \<Rightarrow> bool" where
  "row_ok Js C2 kk \<longleftrightarrow> (Js \<noteq> [] \<longrightarrow> kk < length C2 \<and> (\<forall>d \<in> set Js. d < length (C2 ! kk)))"

definition js_prod :: "real list list \<Rightarrow> nat \<Rightarrow> nat list \<Rightarrow> real" where
  "js_prod C2 kk Js = prod_list (map ((!) (C2 ! kk)) Js)"

definition varf_in_range :: "nat \<Rightarrow> nat \<Rightarrow> nat list \<Rightarrow> real list list \<Rightarrow> real list \<Rightarrow> bool" where
  "varf_in_range m p Js C2 ef \<longleftrightarrow>
     (\<forall>(i, j) \<in> set (offdiag m m). row_ok Js C2 (pair_row m i j)) \<and>
     (\<forall>i \<in> set [0..<m]. row_ok Js C2 (self_row m i)) \<and>
     (setxor1d [0..<p] Js \<noteq> [] \<and> 0 < m \<longrightarrow> m \<le> length ef)"

definition varf_matrix :: "nat \<Rightarrow> nat \<Rightarrow> nat list \<Rightarrow> real list list \<Rightarrow> real list \<Rightarrow> nat \<Rightarrow> nat \<Rightarrow> real" where
  "varf_matrix m p Js C2 ef = (\<lambda>i j.
     if i < m \<and> j < m then
       (if i = j
        then js_prod C2 (self_row m i) Js * (if setxor1d [0..<p] Js = [] then 1 else (ef ! i)\<^sup>2)
        else js_prod C2 (pair_row m (min i j) (max i j)) Js
               * (if setxor1d [0..<p] Js = [] then 1 else ef ! i * ef ! j))
     else 0)"

text \<open>
  The entries of the matrix as the specification describes them: the product over the
  dimensions in \<open>Js\<close> of the table row of the pair, or of the self-pair, times the factor
  of \<open>ef\<close> over the complementary dimensions, where an empty set of factors gives 1.
\<close>

definition entry_offdiag ::
  "nat \<Rightarrow> nat \<Rightarrow> nat list \<Rightarrow> real list list \<Rightarrow> real list \<Rightarrow> nat \<Rightarrow> nat \<Rightarrow> real" where
  "entry_offdiag m p Js C2 ef i j =
     (if Js = [] then 1 else prod_list (map ((!) (C2 ! pair_row m i j)) Js))
       * (if setxor1d [0..<p] Js = [] then 1 else ef ! i * ef ! j)"

definition entry_diag ::
  "nat \<Rightarrow> nat \<Rightarrow> nat list \<Rightarrow> real list list \<Rightarrow> real list \<Rightarrow> nat \<Rightarrow> real" where
  "entry_diag m p Js C2 ef i =
     (if Js = [] then 1 else prod_list (map ((!) (C2 ! self_row m i)) Js))
       * (if setxor1d [0..<p] Js = [] then 1 else (ef ! i)\<^sup>2)"

section \<open>Loops with a row counter\<close>

lemma ebind_Inr [simp]: "ebind (Inr v) f = f v" by (simp add: ebind_def)
lemma ebind_Inl [simp]: "ebind (Inl e) f = Inl e" by (simp add: ebind_def)
lemma ebind_assoc: "ebind (ebind r f) g = ebind r (\<lambda>v. ebind (f v) g)"
  by (cases r) simp_all
lemma ebind_Inr_iff: "ebind r f = Inr y \<longleftrightarrow> (\<exists>v. r = Inr v \<and> f v = Inr y)"
  by (cases r) simp_all

lemma for_loop_append:
  "for_loop (xs @ ys) body s = ebind (for_loop xs body s) (for_loop ys body)"
proof (induction xs arbitrary: s)
  case Nil
  show ?case by simp
next
  case (Cons x xs)
  show ?case by (cases "body x s") (simp_all add: Cons.IH)
qed

lemma schedule_append:
  "schedule k0 (xs @ ys) = schedule k0 xs @ schedule (k0 + length xs) ys"
  by (induction xs arbitrary: k0) simp_all

lemma counted_loop_flat:
  assumes "\<And>kk x s. body x (kk, s) = ebind (step x kk s) (\<lambda>s'. Inr (Suc kk, s'))"
  shows "for_loop xs body (k0, s0) =
         ebind (for_loop (schedule k0 xs) (\<lambda>(x, kk). step x kk) s0) (\<lambda>s. Inr (k0 + length xs, s))"
proof (induction xs arbitrary: k0 s0)
  case Nil
  show ?case by simp
next
  case (Cons x xs)
  show ?case
    by (cases "step x k0 s0") (simp_all add: assms Cons.IH)
qed

lemma schedule_map_Pair:
  "for_loop (schedule k (map (Pair i) ys)) (\<lambda>(x, kk). step x kk) s
     = for_loop (schedule k ys) (\<lambda>(jj, kk). step (i, jj) kk) s"
proof (induction ys arbitrary: k s)
  case Nil
  show ?case by simp
next
  case (Cons y ys)
  show ?case by (cases "step (i, y) k s") (simp_all add: Cons.IH)
qed

lemma nested_loop_flat:
  assumes "\<And>ii jj kk s. body ii jj (kk, s) = ebind (step (ii, jj) kk s) (\<lambda>s'. Inr (Suc kk, s'))"
  shows "for_loop is (\<lambda>ii. for_loop (js ii) (body ii)) (k0, s0) =
         ebind (for_loop (schedule k0 (concat (map (\<lambda>ii. map (Pair ii) (js ii)) is)))
                  (\<lambda>(x, kk). step x kk) s0)
           (\<lambda>s. Inr (k0 + length (concat (map (\<lambda>ii. map (Pair ii) (js ii)) is)), s))"
proof (induction "is" arbitrary: k0 s0)
  case Nil
  show ?case by simp
next
  case (Cons i "is")
  have inner: "for_loop (js i) (body i) (k0, s0) =
      ebind (for_loop (schedule k0 (js i)) (\<lambda>(jj, kk). step (i, jj) kk) s0)
        (\<lambda>s. Inr (k0 + length (js i), s))" for k0 s0
    by (rule counted_loop_flat) (rule assms)
  show ?case
  proof (cases "for_loop (schedule k0 (js i)) (\<lambda>(jj, kk). step (i, jj) kk) s0")
    case (Inl e)
    then show ?thesis
      by (simp add: inner schedule_append for_loop_append schedule_map_Pair)
  next
    case (Inr s1)
    then show ?thesis
      by (simp add: inner schedule_append for_loop_append schedule_map_Pair Cons.IH add.assoc)
  qed
qed

lemma offdiag_0 [simp]: "offdiag 0 m = []" by (simp add: offdiag_def)
lemma offdiag_Suc: "offdiag (Suc n) m = offdiag n m @ map (Pair n) [Suc n..<m]"
  by (simp add: offdiag_def)

lemma set_offdiag: "set (offdiag n m) = {(i, j). i < n \<and> i < j \<and> j < m}"
  by (induction n) (auto simp: offdiag_Suc less_Suc_eq)

lemma distinct_offdiag: "distinct (offdiag n m)"
  by (induction n) (auto simp: offdiag_Suc set_offdiag distinct_map inj_on_def)

lemma length_offdiag2: "n \<le> m \<Longrightarrow> 2 * length (offdiag n m) + n * (n + 1) = 2 * n * m"
proof (induction n)
  case 0
  show ?case by simp
next
  case (Suc n)
  then have "2 * length (offdiag n m) + n * (n + 1) = 2 * n * m" and "n < m" by simp_all
  then show ?case by (simp add: offdiag_Suc algebra_simps)
qed

lemma length_offdiag: "n \<le> m \<Longrightarrow> length (offdiag n m) = n * m - n * (n + 1) div 2"
  using length_offdiag2 [of n m] by simp

lemma length_offdiag_full: "length (offdiag m m) = m * (m - 1) div 2"
proof -
  have "2 * length (offdiag m m) + m * (m + 1) = 2 * m * m"
    by (rule length_offdiag2) simp
  then have "2 * length (offdiag m m) = m * (m - 1)"
    by (cases m) (simp_all add: algebra_simps)
  then show ?thesis by simp
qed

lemma length_offdiag_pred: "offdiag (m - 1) m = offdiag m m"
  by (cases m) (simp_all add: offdiag_Suc)

lemma nth_offdiag:
  "i < n \<Longrightarrow> n \<le> m \<Longrightarrow> i < j \<Longrightarrow> j < m \<Longrightarrow>
     pair_row m i j < length (offdiag n m) \<and> offdiag n m ! pair_row m i j = (i, j)"
proof (induction n)
  case 0
  then show ?case by simp
next
  case (Suc n)
  show ?case
  proof (cases "i < n")
    case True
    with Suc have "pair_row m i j < length (offdiag n m) \<and> offdiag n m ! pair_row m i j = (i, j)"
      by simp
    then show ?thesis by (simp add: offdiag_Suc nth_append)
  next
    case False
    with Suc.prems have i: "i = n" and nm: "n < m" by simp_all
    have pr: "pair_row m n j = length (offdiag n m) + (j - n - 1)"
      using nm by (simp add: pair_row_def length_offdiag)
    define k where "k = j - n - 1"
    have k: "k < length (map (Pair n) [Suc n..<m])" and kj: "Suc n + k = j"
      using Suc.prems i by (simp_all add: k_def)
    have "(offdiag n m @ map (Pair n) [Suc n..<m]) ! (length (offdiag n m) + k)
            = map (Pair n) [Suc n..<m] ! k"
      by (rule nth_append_length_plus)
    also have "\<dots> = (n, j)" using k kj by simp
    finally have "offdiag (Suc n) m ! pair_row m n j = (n, j)"
      by (simp add: offdiag_Suc pr k_def)
    moreover have "pair_row m n j < length (offdiag (Suc n) m)"
      using k by (simp add: offdiag_Suc pr k_def)
    ultimately show ?thesis by (simp add: i)
  qed
qed

lemma map_of_schedule_nth:
  "distinct xs \<Longrightarrow> k < length xs \<Longrightarrow> map_of (schedule k0 xs) (xs ! k) = Some (k0 + k)"
proof (induction xs arbitrary: k0 k)
  case Nil
  then show ?case by simp
next
  case (Cons x xs)
  then show ?case by (cases k) (auto simp: nth_eq_iff_index_eq)
qed

lemma map_of_schedule_None: "x \<notin> set xs \<Longrightarrow> map_of (schedule k0 xs) x = None"
  by (induction xs arbitrary: k0) auto

lemma fst_schedule [simp]: "map fst (schedule k0 xs) = xs"
  by (induction xs arbitrary: k0) auto

lemma flat_fill:
  assumes "distinct (map fst sch)"
    and "\<And>x kk e. cell x kk = Inl e \<Longrightarrow> e = IndexError"
  shows "for_loop sch (\<lambda>(x, kk). fill_step cell x kk) V0 =
           (if \<forall>(x, kk) \<in> set sch. \<not> isl (cell x kk) then Inr (filled cell sch V0)
            else Inl IndexError)"
  using assms(1)
proof (induction sch arbitrary: V0)
  case Nil
  show ?case by (simp add: filled_def)
next
  case (Cons a sch)
  obtain i j kk where a: "a = ((i, j), kk)" by (cases a) auto
  from Cons.prems have d: "distinct (map fst sch)" and nin: "(i, j) \<notin> fst ` set sch"
    by (simp_all add: a)
  show ?case
  proof (cases "cell (i, j) kk")
    case (Inl e)
    then have "e = IndexError" by (rule assms(2))
    with Inl show ?thesis by (auto simp: a fill_step_def)
  next
    case (Inr v)
    have none: "map_of sch (i, j) = None" using nin by (simp add: map_of_eq_None_iff)
    have "filled cell sch (V0(i := (V0 i)(j := v))) = filled cell (a # sch) V0"
      by (intro ext) (auto simp: filled_def a Inr none split: option.splits)
    moreover have "fill_step cell (i, j) kk V0 = Inr (V0(i := (V0 i)(j := v)))"
      by (simp add: fill_step_def Inr)
    ultimately show ?thesis
      using Inr by (simp add: a Cons.IH [OF d])
  qed
qed

lemma pairs_loop_flat:
  "for_loop [0..<n] (\<lambda>ii. for_loop [ii + 1..<m] (\<lambda>jj (kk, Vf).
       ebind (cell (ii, jj) kk) (\<lambda>v. Inr (kk + 1, Vf(ii := (Vf ii)(jj := v)))))) (k0, V0)
   = ebind (for_loop (schedule k0 (offdiag n m)) (\<lambda>(x, kk). fill_step cell x kk) V0)
       (\<lambda>s. Inr (k0 + length (offdiag n m), s))"
  unfolding offdiag_def
  by (rule nested_loop_flat) (simp add: fill_step_def ebind_assoc)

lemma schedule_map:
  "for_loop (schedule k (map f ys)) (\<lambda>(x, kk). step x kk) s
     = for_loop (schedule k ys) (\<lambda>(y, kk). step (f y) kk) s"
proof (induction ys arbitrary: k s)
  case Nil
  show ?case by simp
next
  case (Cons y ys)
  show ?case by (cases "step (f y) k s") (simp_all add: Cons.IH)
qed

lemma diag_loop_flat:
  "for_loop [0..<m] (\<lambda>ii (kk, Vf). let kk = kk + 1 in
       ebind (cell (ii, ii) kk) (\<lambda>v. Inr (kk, Vf(ii := (Vf ii)(ii := v))))) (k0, V0)
   = ebind (for_loop (schedule (Suc k0) (map (\<lambda>i. (i, i)) [0..<m])) (\<lambda>(x, kk). fill_step cell x kk) V0)
       (\<lambda>s. Inr (k0 + m, s))"
proof -
  have "for_loop xs (\<lambda>ii (kk, Vf). let kk = kk + 1 in
       ebind (cell (ii, ii) kk) (\<lambda>v. Inr (kk, Vf(ii := (Vf ii)(ii := v))))) (k0, V0)
   = ebind (for_loop (schedule k0 xs) (\<lambda>(i, kk). fill_step cell (i, i) (Suc kk)) V0)
       (\<lambda>s. Inr (k0 + length xs, s))" for xs
    by (rule counted_loop_flat) (simp add: fill_step_def ebind_assoc)
  moreover have "for_loop (schedule k xs) (\<lambda>(i, kk). fill_step cell (i, i) (Suc kk)) s
      = for_loop (schedule (Suc k) (map (\<lambda>i. (i, i)) xs)) (\<lambda>(x, kk). fill_step cell x kk) s" for xs k s
  proof (induction xs arbitrary: k s)
    case Nil
    show ?case by simp
  next
    case (Cons y ys)
    show ?case by (cases "fill_step cell (y, y) (Suc k) s") (simp_all add: Cons.IH)
  qed
  ultimately show ?thesis by simp
qed

lemma ebind_return [simp]: "ebind r Inr = r"
  by (cases r) simp_all

lemma varf_flat:
  "varf m p Js C2 ef =
     ebind (for_loop (schedule 0 (offdiag (m - 1) m))
              (\<lambda>(x, kk). fill_step (cell_pair Js (setxor1d [0..<p] Js) C2 ef) x kk) (\<lambda>i j. 0))
       (\<lambda>Vf. for_loop (schedule (Suc (length (offdiag (m - 1) m))) (map (\<lambda>i. (i, i)) [0..<m]))
                (\<lambda>(x, kk). fill_step (cell_diag Js (setxor1d [0..<p] Js) C2 ef) x kk)
                (\<lambda>i j. Vf i j + Vf j i))"
proof -
  let ?ll = "setxor1d [0..<p] Js"
  note P = pairs_loop_flat [where cell = "cell_pair Js ?ll C2 ef" and n = "m - 1" and m = m
      and ?k0.0 = 0 and ?V0.0 = "\<lambda>i j. 0", unfolded cell_pair_def fst_conv snd_conv]
  note D = diag_loop_flat [where cell = "cell_diag Js ?ll C2 ef" and m = m,
      unfolded cell_diag_def fst_conv snd_conv Let_def]
  show ?thesis
    unfolding varf_def Let_def P D
    by (simp add: ebind_assoc cell_pair_def [abs_def] cell_diag_def [abs_def])
qed

lemma varf_cell_eq:
  "varf_cell Js ll C2 kk effac =
     (if row_ok Js C2 kk then (if ll \<noteq> [] then effac (js_prod C2 kk Js) else Inr (js_prod C2 kk Js))
      else Inl IndexError)"
  by (auto simp: varf_cell_def row_ok_def js_prod_def np_row_take_def np_take_def)

lemma cell_pair_eq:
  "cell_pair Js ll C2 ef (i, j) kk =
     (if row_ok Js C2 kk \<and> (ll \<noteq> [] \<longrightarrow> i < length ef \<and> j < length ef)
      then Inr (if ll \<noteq> [] then js_prod C2 kk Js * ef ! i * ef ! j else js_prod C2 kk Js)
      else Inl IndexError)"
  by (simp add: cell_pair_def varf_cell_eq np_get_def)

lemma cell_diag_eq:
  "cell_diag Js ll C2 ef (i, j) kk =
     (if row_ok Js C2 kk \<and> (ll \<noteq> [] \<longrightarrow> i < length ef)
      then Inr (if ll \<noteq> [] then js_prod C2 kk Js * (ef ! i)\<^sup>2 else js_prod C2 kk Js)
      else Inl IndexError)"
  by (simp add: cell_diag_def varf_cell_eq np_get_def)

lemma cell_pair_err: "cell_pair Js ll C2 ef x kk = Inl e \<Longrightarrow> e = IndexError"
  by (cases x) (auto simp: cell_pair_eq split: if_splits)

lemma cell_diag_err: "cell_diag Js ll C2 ef x kk = Inl e \<Longrightarrow> e = IndexError"
  by (cases x) (auto simp: cell_diag_eq split: if_splits)

lemma set_schedule: "set (schedule k0 xs) = {(xs ! k, k0 + k) | k. k < length xs}"
proof (induction xs arbitrary: k0)
  case Nil
  show ?case by simp
next
  case (Cons x xs)
  have "{((x # xs) ! k, k0 + k) | k. k < length (x # xs)}
        = insert (x, k0) {(xs ! k, Suc k0 + k) | k. k < length xs}"
    by (auto simp: less_Suc_eq_0_disj)
  then show ?case by (simp add: Cons.IH)
qed

lemma set_schedule_offdiag:
  "set (schedule 0 (offdiag m m)) = {((i, j), pair_row m i j) | i j. i < j \<and> j < m}"
proof (intro set_eqI iffI)
  fix z assume "z \<in> set (schedule 0 (offdiag m m))"
  then obtain k where k: "k < length (offdiag m m)" and z: "z = (offdiag m m ! k, k)"
    by (auto simp: set_schedule)
  obtain i j where ij: "offdiag m m ! k = (i, j)" by (cases "offdiag m m ! k") auto
  then have "(i, j) \<in> set (offdiag m m)" using k by (metis nth_mem)
  then have lt: "i < m" "i < j" "j < m" by (auto simp: set_offdiag)
  then have "pair_row m i j < length (offdiag m m) \<and> offdiag m m ! pair_row m i j = (i, j)"
    by (intro nth_offdiag) simp_all
  with ij k have "k = pair_row m i j"
    using distinct_offdiag [of m m] by (metis nth_eq_iff_index_eq)
  with z ij lt show "z \<in> {((i, j), pair_row m i j) | i j. i < j \<and> j < m}" by auto
next
  fix z assume "z \<in> {((i, j), pair_row m i j) | i j. i < j \<and> j < m}"
  then obtain i j where z: "z = ((i, j), pair_row m i j)" and lt: "i < j" "j < m" by auto
  then have "pair_row m i j < length (offdiag m m) \<and> offdiag m m ! pair_row m i j = (i, j)"
    by (intro nth_offdiag) simp_all
  then show "z \<in> set (schedule 0 (offdiag m m))"
    by (force simp: set_schedule z)
qed

lemma map_of_schedule_offdiag:
  "map_of (schedule 0 (offdiag m m)) (i, j) =
     (if i < j \<and> j < m then Some (pair_row m i j) else None)"
proof (cases "i < j \<and> j < m")
  case True
  then have "pair_row m i j < length (offdiag m m) \<and> offdiag m m ! pair_row m i j = (i, j)"
    by (intro nth_offdiag) simp_all
  then show ?thesis
    using True map_of_schedule_nth [OF distinct_offdiag, of "pair_row m i j" m m 0] by simp
next
  case False
  then have "(i, j) \<notin> set (offdiag m m)" by (auto simp: set_offdiag)
  then show ?thesis using False by (simp add: map_of_schedule_None)
qed

lemma set_schedule_diag:
  "set (schedule k0 (map (\<lambda>i. (i, i)) [0..<m])) = {((i, i), k0 + i) | i. i < m}"
  by (auto simp: set_schedule)

lemma map_of_schedule_diag:
  "map_of (schedule k0 (map (\<lambda>i. (i, i)) [0..<m])) (i, j) =
     (if i = j \<and> i < m then Some (k0 + i) else None)"
proof (cases "i = j \<and> i < m")
  case True
  have "distinct (map (\<lambda>i. (i, i)) [0..<m])" by (simp add: distinct_map inj_on_def)
  from map_of_schedule_nth [OF this, of i k0] True show ?thesis by simp
next
  case False
  then have "(i, j) \<notin> set (map (\<lambda>i. (i, i)) [0..<m])" by auto
  then show ?thesis using False by (simp add: map_of_schedule_None)
qed

lemma two_stage:
  assumes "r1 = (if a then Inr v1 else Inl e)"
    and "\<And>V. r2 V = (if b then Inr (g V) else Inl e)"
  shows "ebind r1 r2 = (if a \<and> b then Inr (g v1) else Inl e)"
  using assms by auto

lemma varf_exact:
  "varf m p Js C2 ef =
     (if varf_in_range m p Js C2 ef then Inr (varf_matrix m p Js C2 ef) else Inl IndexError)"
proof -
  let ?ll = "setxor1d [0..<p] Js"
  let ?cP = "cell_pair Js ?ll C2 ef" and ?cD = "cell_diag Js ?ll C2 ef"
  let ?sP = "schedule 0 (offdiag m m)"
  let ?sD = "schedule (Suc (m * (m - 1) div 2)) (map (\<lambda>i. (i, i)) [0..<m])"
  let ?okP = "\<forall>(x, kk) \<in> set ?sP. \<not> isl (?cP x kk)"
  let ?okD = "\<forall>(x, kk) \<in> set ?sD. \<not> isl (?cD x kk)"
  let ?V1 = "filled ?cP ?sP (\<lambda>i j. 0)"
  have P: "for_loop ?sP (\<lambda>(x, kk). fill_step ?cP x kk) (\<lambda>i j. 0) =
             (if ?okP then Inr ?V1 else Inl IndexError)"
    by (rule flat_fill) (simp_all add: distinct_offdiag cell_pair_err)
  have D: "for_loop ?sD (\<lambda>(x, kk). fill_step ?cD x kk) V =
             (if ?okD then Inr (filled ?cD ?sD V) else Inl IndexError)" for V
    by (rule flat_fill) (simp_all add: distinct_map inj_on_def cell_diag_err)
  have flat: "varf m p Js C2 ef =
      ebind (for_loop ?sP (\<lambda>(x, kk). fill_step ?cP x kk) (\<lambda>i j. 0))
        (\<lambda>Vf. for_loop ?sD (\<lambda>(x, kk). fill_step ?cD x kk) (\<lambda>i j. Vf i j + Vf j i))"
    by (simp only: varf_flat length_offdiag_pred length_offdiag_full)
  have okP: "?okP \<longleftrightarrow> (\<forall>i j. i < j \<and> j < m \<longrightarrow>
               row_ok Js C2 (pair_row m i j) \<and> (?ll \<noteq> [] \<longrightarrow> i < length ef \<and> j < length ef))"
    by (auto simp: set_schedule_offdiag cell_pair_eq split: if_splits)
  have okD: "?okD \<longleftrightarrow> (\<forall>i < m. row_ok Js C2 (self_row m i) \<and> (?ll \<noteq> [] \<longrightarrow> i < length ef))"
    by (auto simp: set_schedule_diag cell_diag_eq self_row_def split: if_splits)
  have ok: "?okP \<and> ?okD \<longleftrightarrow> varf_in_range m p Js C2 ef"
  proof
    assume a: "?okP \<and> ?okD"
    have "m \<le> length ef" if "?ll \<noteq> []" "0 < m"
    proof -
      from a that have "m - 1 < length ef" unfolding okD by simp
      with that show ?thesis by simp
    qed
    with a show "varf_in_range m p Js C2 ef"
      unfolding okP okD varf_in_range_def by (auto simp: set_offdiag)
  next
    assume "varf_in_range m p Js C2 ef"
    then show "?okP \<and> ?okD"
      unfolding okP okD varf_in_range_def by (fastforce simp: set_offdiag)
  qed
  have val: "filled ?cD ?sD (\<lambda>i j. ?V1 i j + ?V1 j i) = varf_matrix m p Js C2 ef"
    if "varf_in_range m p Js C2 ef"
  proof (intro ext)
    fix i j
    from that have okP' : "\<forall>i j. i < j \<and> j < m \<longrightarrow>
               row_ok Js C2 (pair_row m i j) \<and> (?ll \<noteq> [] \<longrightarrow> i < length ef \<and> j < length ef)"
      and okD': "\<forall>i < m. row_ok Js C2 (self_row m i) \<and> (?ll \<noteq> [] \<longrightarrow> i < length ef)"
      using ok okP okD by blast+
    have V1: "?V1 a b = (if a < b \<and> b < m
                 then (if ?ll \<noteq> [] then js_prod C2 (pair_row m a b) Js * ef ! a * ef ! b
                       else js_prod C2 (pair_row m a b) Js)
                 else 0)" for a b
      using okP' by (auto simp: filled_def map_of_schedule_offdiag cell_pair_eq)
    show "filled ?cD ?sD (\<lambda>i j. ?V1 i j + ?V1 j i) i j = varf_matrix m p Js C2 ef i j"
    proof (cases "i = j \<and> i < m")
      case True
      with okD' show ?thesis
        by (simp add: filled_def map_of_schedule_diag cell_diag_eq varf_matrix_def self_row_def)
    next
      case False
      then have "filled ?cD ?sD (\<lambda>i j. ?V1 i j + ?V1 j i) i j = ?V1 i j + ?V1 j i"
        by (auto simp: filled_def map_of_schedule_diag)
      also have "\<dots> = varf_matrix m p Js C2 ef i j"
        using False by (auto simp: V1 varf_matrix_def min_def max_def)
      finally show ?thesis .
    qed
  qed
  have "varf m p Js C2 ef =
          (if ?okP \<and> ?okD then Inr (filled ?cD ?sD (\<lambda>i j. ?V1 i j + ?V1 j i)) else Inl IndexError)"
    unfolding flat by (rule two_stage [OF P D])
  then have "varf m p Js C2 ef =
          (if varf_in_range m p Js C2 ef then Inr (filled ?cD ?sD (\<lambda>i j. ?V1 i j + ?V1 j i))
           else Inl IndexError)"
    by (simp only: ok)
  then show ?thesis
    by (cases "varf_in_range m p Js C2 ef") (simp_all only: val if_True if_False)
qed

section \<open>Facts about \<^verbatim>\<open>varf\<close> and \<^verbatim>\<open>setxor1d\<close>\<close>

lemma varf_matrix_sym: "varf_matrix m p Js C2 ef i j = varf_matrix m p Js C2 ef j i"
  by (simp add: varf_matrix_def min.commute max.commute mult.commute)

lemma varf_example_in_range:
  "varf_in_range 2 2 [0] [[2, 1], [0, 0], [3, 1], [5, 1], [0, 0]] [7, 11]"
  by code_simp

lemma set_setxor1d: "set (setxor1d a b) = (set a - set b) \<union> (set b - set a)"
  unfolding setxor1d_def by (simp add: set_diff_eq)

lemma setxor1d_full:
  assumes "set Js = {..<p}"
  shows "setxor1d [0..<p] Js = []"
proof -
  have "set (setxor1d [0..<p] Js) = ({..<p} - set Js) \<union> (set Js - {..<p})"
    by (simp add: setxor1d_def set_diff_eq atLeast0LessThan)
  also have "\<dots> = {}" by (simp only: assms Diff_cancel Un_empty_left)
  finally show ?thesis by (simp only: set_empty)
qed

section \<open>The claims about \<^verbatim>\<open>varf\<close>\<close>

text \<open>
  Claim C7. Whenever \<^verbatim>\<open>varf\<close> returns a matrix, that is, on all inputs on which no read
  is out of range, the matrix is symmetric: \<open>Vf[i, j] = Vf[j, i]\<close> for all \<open>i\<close> and \<open>j\<close>.
\<close>

theorem varf_symmetric:
  "varf m p Js C2 ef = Inr Vf \<Longrightarrow> Vf i j = Vf j i"
  by (auto simp: varf_exact varf_matrix_sym split: if_splits)

text \<open>
  A run of \<^verbatim>\<open>varf\<close> with two sample points, two dimensions, \<open>Js = [0]\<close> and a table with
  the five rows that \<^verbatim>\<open>calc2\<close> allocates for \<open>m = 2\<close>.
\<close>

theorem varf_symmetric_witness:
  "\<exists>Vf. varf 2 2 [0] [[2, 1], [0, 0], [3, 1], [5, 1], [0, 0]] [7, 11] = Inr Vf
      \<and> Vf 0 1 = Vf 1 0 \<and> Vf 0 1 = 154"
proof -
  let ?T = "[[2, 1], [0, 0], [3, 1], [5, 1], [0, 0 :: real]]"
  have r: "varf 2 2 [0] ?T [7, 11] = Inr (varf_matrix 2 2 [0] ?T [7, 11])"
    by (simp only: varf_exact varf_example_in_range if_True)
  have v: "varf_matrix 2 2 [0] ?T [7, 11] 0 1 = 154"
    by code_simp
  show ?thesis
  proof (intro exI conjI)
    show "varf 2 2 [0] ?T [7, 11] = Inr (varf_matrix 2 2 [0] ?T [7, 11])" by (rule r)
    show "varf_matrix 2 2 [0] ?T [7, 11] 0 1 = varf_matrix 2 2 [0] ?T [7, 11] 1 0"
      by (rule varf_symmetric [OF r])
    show "varf_matrix 2 2 [0] ?T [7, 11] 0 1 = 154" by (rule v)
  qed
qed

text \<open>
  Claim C6. On every valid input, that is, when the rows of \<open>C2\<close> for the pairs and the
  self-pairs exist and hold the columns \<open>Js\<close> and, if the complement of \<open>Js\<close> is not
  empty, \<open>ef\<close> has an entry for each of the \<open>m\<close> sample points, \<^verbatim>\<open>varf\<close> returns a
  matrix whose entry \<open>(i, j)\<close> and entry \<open>(j, i)\<close>, for \<open>i < j < m\<close>, are the product
  over \<open>Js\<close> of the table row of the pair \<open>{i, j}\<close> times \<open>ef[i] * ef[j]\<close>, and whose
  entry \<open>(i, i)\<close> is the product over \<open>Js\<close> of the self-pair row times \<open>ef[i]\<^sup>2\<close>.
  An empty \<open>Js\<close> and an empty complement contribute the factor 1; the complement is
  empty when \<open>Js\<close> is the full set of dimensions.
\<close>

theorem varf_entries:
  assumes "varf_in_range m p Js C2 ef"
  shows "\<exists>Vf. varf m p Js C2 ef = Inr Vf \<and>
           (\<forall>i j. i < j \<and> j < m \<longrightarrow>
              Vf i j = entry_offdiag m p Js C2 ef i j \<and> Vf j i = entry_offdiag m p Js C2 ef i j) \<and>
           (\<forall>i. i < m \<longrightarrow> Vf i i = entry_diag m p Js C2 ef i) \<and>
           (set Js = {..<p} \<longrightarrow> setxor1d [0..<p] Js = [])"
proof -
  let ?V = "varf_matrix m p Js C2 ef"
  have r: "varf m p Js C2 ef = Inr ?V"
    using assms by (simp only: varf_exact if_True)
  have off: "?V i j = entry_offdiag m p Js C2 ef i j" if "i < j" "j < m" for i j
    using that by (simp add: varf_matrix_def entry_offdiag_def js_prod_def min_def max_def)
  have off': "?V j i = entry_offdiag m p Js C2 ef i j" if "i < j" "j < m" for i j
  proof -
    have "?V j i = ?V i j" by (rule varf_matrix_sym)
    with off [OF that] show ?thesis by (simp only:)
  qed
  have dg: "?V i i = entry_diag m p Js C2 ef i" if "i < m" for i
    using that by (simp add: varf_matrix_def entry_diag_def js_prod_def)
  have 1: "\<forall>i j. i < j \<and> j < m \<longrightarrow>
              ?V i j = entry_offdiag m p Js C2 ef i j \<and> ?V j i = entry_offdiag m p Js C2 ef i j"
    using off off' by blast
  have 2: "\<forall>i. i < m \<longrightarrow> ?V i i = entry_diag m p Js C2 ef i"
    using dg by blast
  have 3: "set Js = {..<p} \<longrightarrow> setxor1d [0..<p] Js = []"
    using setxor1d_full by blast
  from r 1 2 3 show ?thesis by (intro exI [of _ ?V] conjI)
qed

text \<open>The same run, entry by entry.\<close>

theorem varf_entries_witness:
  "varf_in_range 2 2 [0] [[2, 1], [0, 0], [3, 1], [5, 1], [0, 0]] [7, 11] \<and>
   (\<exists>Vf. varf 2 2 [0] [[2, 1], [0, 0], [3, 1], [5, 1], [0, 0]] [7, 11] = Inr Vf
      \<and> Vf 0 1 = 154 \<and> Vf 1 0 = 154 \<and> Vf 0 0 = 147 \<and> Vf 1 1 = 605)"
proof -
  let ?T = "[[2, 1], [0, 0], [3, 1], [5, 1], [0, 0 :: real]]"
  have e01: "entry_offdiag 2 2 [0] ?T [7, 11] 0 1 = 154"
    by code_simp
  have e0: "entry_diag 2 2 [0] ?T [7, 11] 0 = 147"
    by code_simp
  have e1: "entry_diag 2 2 [0] ?T [7, 11] 1 = 605"
    by code_simp
  from varf_entries [OF varf_example_in_range]
  obtain Vf where H: "varf 2 2 [0] ?T [7, 11] = Inr Vf \<and>
           (\<forall>i j. i < j \<and> j < 2 \<longrightarrow>
              Vf i j = entry_offdiag 2 2 [0] ?T [7, 11] i j \<and>
              Vf j i = entry_offdiag 2 2 [0] ?T [7, 11] i j) \<and>
           (\<forall>i. i < 2 \<longrightarrow> Vf i i = entry_diag 2 2 [0] ?T [7, 11] i) \<and>
           (set [0] = {..<2::nat} \<longrightarrow> setxor1d [0..<2] [0] = [])" ..
  note r = H [THEN conjunct1]
  note off = H [THEN conjunct2, THEN conjunct1, rule_format]
  note dg = H [THEN conjunct2, THEN conjunct2, THEN conjunct1, rule_format]
  have "Vf 0 1 = 154" "Vf 1 0 = 154"
    using off [of 0 1] e01 by simp_all
  moreover have "Vf 0 0 = 147"
    using dg [of 0] e0 by simp
  moreover have "Vf 1 1 = 605"
    using dg [of 1] e1 by simp
  ultimately show ?thesis
    using r varf_example_in_range by (intro conjI exI [of _ Vf])
qed

section \<open>The claims about the first stages of \<^verbatim>\<open>sensitivity\<close>\<close>

lemma sens_domain_None: "sens_domain nv None = Inr (nv, replicate nv (0, 1), [0..<nv])"
  by (simp add: sens_domain_def)

lemma sens_domain_Some: "sens_domain nv (Some rg) = Inl AttributeError"
  by (simp add: sens_domain_def np_where_def shape0_def)

lemma resolve_option_None:
  "resolve_option option s = None \<longleftrightarrow>
     option \<notin> {OptStr ''samples'', OptStr ''mean'', OptStr ''median''} \<and> (\<forall>d. option \<noteq> OptDict d)"
  by (cases option) (auto simp: resolve_option_def)

text \<open>
  Claim C1 says that a range matrix \<open>rg\<close> with a degenerate dimension makes
  \<^verbatim>\<open>sensitivity\<close> drop that dimension and return indices for the remaining ones. The code
  does not get that far: line 55 stores the tuple that \<^verbatim>\<open>np.where\<close> returns, and line 56
  asks the tuple for its \<^verbatim>\<open>shape\<close>. Every call with a range matrix raises AttributeError,
  whatever the matrix holds.
\<close>

theorem sensitivity_rg_raises:
  "sensitivity ext M samples_dict ngrid varlist jelist (Some rg) option = Inl AttributeError"
  by (simp add: sensitivity_def sens_domain_Some)

text \<open>The call on the example model with the single dimension fixed at one half.\<close>

theorem degenerate_range_raises:
  "sensitivity example_ext example_model None 21 VarNone None (Some [(1 / 2, 1 / 2)]) (OptStr ''mean'')
     = Inl AttributeError"
  by (simp add: sensitivity_def sens_domain_Some)

text \<open>
  Claim C3 says that an unrecognised \<open>option\<close> makes the call fail with an error that
  reaches the caller. On the example model the call with the option \<^verbatim>\<open>'mode'\<close> returns:
  it prints the message and returns \<open>None\<close>, and no exception is raised.
\<close>

theorem invalid_option_not_raised:
  "sensitivity example_ext example_model None 21 VarNone None None (OptStr ''mode'')
     = Inr ([msg_invalid], None)"
  by (simp add: sensitivity_def sens_domain_None example_model_def resolve_option_def)

text \<open>
  Claim C3 as amended. When no range matrix is passed, the model has at least one input
  dimension and \<open>option\<close> is neither \<^verbatim>\<open>'samples'\<close>, \<^verbatim>\<open>'mean'\<close>, \<^verbatim>\<open>'median'\<close> nor a
  dictionary, \<^verbatim>\<open>sensitivity\<close> prints the message that names the accepted options and
  returns \<open>None\<close>: no exception is raised, no default is used and no result is built.
\<close>

theorem invalid_option_prints_and_returns:
  assumes "option \<notin> {OptStr ''samples'', OptStr ''mean'', OptStr ''median''}"
    and "\<forall>d. option \<noteq> OptDict d"
    and "m_p M + m_q M \<noteq> 0"
  shows "sensitivity ext M samples_dict ngrid varlist jelist None option =
           Inr ([''invalid option (choose mean, median, or samples, or pass dict of values for betaU, lamUz, lamWs)''],
                None)"
proof -
  have "resolve_option option s = None" for s
    using assms(1,2) by (simp only: resolve_option_None simp_thms)
  with assms(3) show ?thesis
    by (auto simp: sensitivity_def sens_domain_None msg_invalid_def Let_def)
qed

text \<open>The call on the example model with an option that is not a string.\<close>

theorem invalid_option_prints_and_returns_witness:
  "OptOther \<notin> {OptStr ''samples'', OptStr ''mean'', OptStr ''median''} \<and>
   (\<forall>d. OptOther \<noteq> OptDict d) \<and>
   m_p example_model + m_q example_model \<noteq> 0 \<and>
   sensitivity example_ext example_model None 21 VarAll None None OptOther =
     Inr ([''invalid option (choose mean, median, or samples, or pass dict of values for betaU, lamUz, lamWs)''],
          None)"
proof -
  have 1: "OptOther \<notin> {OptStr ''samples'', OptStr ''mean'', OptStr ''median''}" by simp
  have 2: "\<forall>d. OptOther \<noteq> OptDict d" by simp
  have 3: "m_p example_model + m_q example_model \<noteq> 0" by (simp add: example_model_def)
  from invalid_option_prints_and_returns [OF 1 2 3] 1 2 3 show ?thesis by blast
qed

end
